theory Spec2Isabelle
  imports Complex_Main
begin

section \<open>Python values and strings\<close>

text \<open>
  A Python \<open>str\<close> is a sequence of code points. It is modelled as a \<open>string\<close>, one
  \<open>char\<close> per code point, which covers the code points below 256 (ASCII and Latin-1);
  \<open>length\<close> is then Python's \<open>len\<close>. The values a caller can hand to a function that is
  annotated \<open>str\<close> but not checked, and the values a JSON body can hold under a key, are
  the strings and a few non-strings.
\<close>

datatype py_value = PyStr string | PyNone | PyBool bool | PyInt int

datatype py_exception = AttributeError string

text \<open>The name Python prints for the type of a value, as in \<open>type(v).__name__\<close>.\<close>

fun type_name :: "py_value \<Rightarrow> string" where
  "type_name (PyStr s) = ''str''"
| "type_name PyNone = ''NoneType''"
| "type_name (PyBool b) = ''bool''"
| "type_name (PyInt i) = ''int''"

text \<open>
  \<open>AttributeError ty\<close> is the exception of a failed lookup of the attribute \<open>lower\<close> on a
  value of the type named \<open>ty\<close>, and \<open>exc_str e\<close> is \<open>str(e)\<close>, the message with its
  single quotes (character \<open>0x27\<close>).
\<close>

fun exc_str :: "py_exception \<Rightarrow> string" where
  "exc_str (AttributeError ty) =
     [CHR 0x27] @ ty @ [CHR 0x27] @ '' object has no attribute '' @ [CHR 0x27] @ ''lower'' @ [CHR 0x27]"

text \<open>
  \<open>str.lower\<close> on one code point below 256: the ASCII capitals \<open>A\<close>..\<open>Z\<close> (65..90) and the
  Latin-1 capitals (192..222 without the multiplication sign 215) move up by 32; every
  other code point of that range is its own lowercase.
\<close>

definition lower_char :: "char \<Rightarrow> char" where
  "lower_char c =
     (let n = (of_char c :: nat) in
      if (65 \<le> n \<and> n \<le> 90) \<or> (192 \<le> n \<and> n \<le> 222 \<and> n \<noteq> 215)
      then char_of (n + 32) else c)"

definition lower :: "string \<Rightarrow> string" where
  "lower s = map lower_char s"

text \<open>\<open>query.lower()\<close> on an arbitrary value: only a \<open>str\<close> has the method.\<close>

definition py_lower :: "py_value \<Rightarrow> py_exception + string" where
  "py_lower v = (case v of PyStr s \<Rightarrow> Inr (lower s) | _ \<Rightarrow> Inl (AttributeError (type_name v)))"

text \<open>\<open>q.startswith(x)\<close> and the substring test \<open>x in q\<close> of two strings.\<close>

fun startswith :: "string \<Rightarrow> string \<Rightarrow> bool" where
  "startswith q [] = True"
| "startswith [] (x # xs) = False"
| "startswith (c # q) (x # xs) = (c = x \<and> startswith q xs)"

fun str_contains :: "string \<Rightarrow> string \<Rightarrow> bool" where
  "str_contains x [] = (x = [])"
| "str_contains x (c # q) = (startswith (c # q) x \<or> str_contains x q)"


section \<open>The categorization service (app/services/categorizer.py)\<close>

definition VALID_CATEGORIES :: "string set" where
  "VALID_CATEGORIES = {''stock'', ''news'', ''portfolio'', ''general''}"

text \<open>The three keyword lists written inline in \<open>categorize_query\<close>, in the order of the source.\<close>

definition stock_keywords :: "string list" where
  "stock_keywords =
     [''price'', ''pe ratio'', ''dividend'', ''volume'', ''chart'', ''high'', ''low'', ''market cap'']"

definition news_keywords :: "string list" where
  "news_keywords =
     [''news'', ''headline'', ''happened'', ''event'', ''latest'', ''update'', ''report'']"

definition portfolio_keywords :: "string list" where
  "portfolio_keywords =
     [''portfolio'', ''holding'', ''bought'', ''sold'', ''buy'', ''sell'', ''balance'',
      ''account'', ''transaction'', ''position'']"

text \<open>\<open>any(x in q for x in kws)\<close>.\<close>

definition matches :: "string list \<Rightarrow> string \<Rightarrow> bool" where
  "matches kws q = list_ex (\<lambda>x. str_contains x q) kws"

text \<open>
  The body of the \<open>try\<close> block: either an exception (\<open>Inl\<close>) or the returned label.
  The three \<open>if\<close> statements are tried in the order of the source.
\<close>

definition categorize_body :: "py_value \<Rightarrow> py_exception + string" where
  "categorize_body query =
     (case py_lower query of
        Inl e \<Rightarrow> Inl e
      | Inr q \<Rightarrow>
          Inr (if matches stock_keywords q then ''stock''
               else if matches news_keywords q then ''news''
               else if matches portfolio_keywords q then ''portfolio''
               else ''general''))"

text \<open>
  The only module-level object the function touches is the logger. Its records are the
  state that is threaded through a call: \<open>logger.error\<close> appends one record.
\<close>

datatype log_record = ERROR string

type_synonym log = "log_record list"

text \<open>\<open>try: ... except Exception as e: logger.error(...); return "general"\<close>.\<close>

definition categorize_query :: "py_value \<Rightarrow> log \<Rightarrow> string \<times> log" where
  "categorize_query query lg =
     (case categorize_body query of
        Inr c \<Rightarrow> (c, lg)
      | Inl e \<Rightarrow> (''general'', lg @ [ERROR (''Categorization failed: '' @ exc_str e)]))"

text \<open>
  The priority order in the words of the specification: the categories that have keywords,
  earliest first, and the categories of which some keyword occurs in a lowercased query.
\<close>

definition priority_order :: "(string \<times> string list) list" where
  "priority_order =
     [(''stock'', stock_keywords), (''news'', news_keywords), (''portfolio'', portfolio_keywords)]"

definition matching_categories :: "string \<Rightarrow> string list" where
  "matching_categories q = map fst (filter (\<lambda>(c, kws). matches kws q) priority_order)"


section \<open>Configuration (app/core/config.py)\<close>

record Settings =
  app_name :: string
  debug :: bool
  log_level :: string
  database_url :: string
  openai_api_key :: string
  gemini_api_key :: string
  news_api_key :: string

text \<open>The values of the fields when the environment overrides none of them.\<close>

definition default_settings :: Settings where
  "default_settings =
     \<lparr>app_name = ''Financial Research AI'', debug = False, log_level = ''INFO'',
      database_url = ''sqlite:///./financial_ai.db'', openai_api_key = '''',
      gemini_api_key = '''', news_api_key = ''''\<rparr>"


section \<open>The schemas (app/schemas/analyze.py)\<close>

record AnalyzeRequest =
  question :: string

record AnalyzeResponse =
  category :: string
  summary :: string
  data :: "(string \<times> py_value) list option"
  confidence :: "real option"

record HealthResponse =
  status :: string
  app :: string

text \<open>
  One entry of the list a failed request validation reports (\<open>exc.errors()\<close>): the kind
  of the violation and the path of the field. The entry's message text, its echo of the
  input and its context are not modelled.
\<close>

record error_detail =
  err_type :: string
  loc :: "string list"

text \<open>
  Validation of a JSON object body against \<open>AnalyzeRequest\<close>, as the framework runs it
  before the handler: \<open>question\<close> is required (\<open>...\<close>), must be a string, and
  \<open>min_length=3\<close>, \<open>max_length=1000\<close> bound its length in code points. The string is
  taken as it is: nothing strips or normalises it. The body is the parsed object, a map
  from keys to values.
\<close>

definition validate_AnalyzeRequest :: "(string \<rightharpoonup> py_value) \<Rightarrow> error_detail list + AnalyzeRequest" where
  "validate_AnalyzeRequest body =
     (case body ''question'' of
        None \<Rightarrow> Inl [\<lparr>err_type = ''missing'', loc = [''body'', ''question'']\<rparr>]
      | Some (PyStr s) \<Rightarrow>
          if length s < 3
          then Inl [\<lparr>err_type = ''string_too_short'', loc = [''body'', ''question'']\<rparr>]
          else if 1000 < length s
          then Inl [\<lparr>err_type = ''string_too_long'', loc = [''body'', ''question'']\<rparr>]
          else Inr \<lparr>question = s\<rparr>
      | Some _ \<Rightarrow> Inl [\<lparr>err_type = ''string_type'', loc = [''body'', ''question'']\<rparr>])"

text \<open>
  The constructor \<open>AnalyzeResponse(...)\<close>: \<open>category\<close> is a \<open>Literal\<close> of the four labels
  and \<open>confidence\<close>, when given, lies in \<open>[0, 1]\<close>; otherwise the constructor raises
  (the result \<open>None\<close>).
\<close>

definition mk_AnalyzeResponse ::
    "string \<Rightarrow> string \<Rightarrow> (string \<times> py_value) list option \<Rightarrow> real option
       \<Rightarrow> AnalyzeResponse option" where
  "mk_AnalyzeResponse c s d cf =
     (if c \<in> {''stock'', ''news'', ''portfolio'', ''general''}
         \<and> (case cf of None \<Rightarrow> True | Some x \<Rightarrow> 0 \<le> x \<and> x \<le> 1)
      then Some \<lparr>category = c, summary = s, data = d, confidence = cf\<rparr>
      else None)"


section \<open>The handlers (app/api/analyze.py, app/main.py)\<close>

text \<open>
  A value computed by a handler, paired with the arguments of the calls of
  \<open>categorize_query\<close> made while computing it, in order.
\<close>

type_synonym 'a traced = "'a \<times> py_value list"

text \<open>
  The handler of \<open>POST /api/v1/analyze\<close>. Its body is one \<open>return\<close> of a constructed
  response; it contains no call of the categorization service.
\<close>

definition analyze :: "AnalyzeRequest \<Rightarrow> AnalyzeResponse option traced" where
  "analyze payload =
     (mk_AnalyzeResponse ''general'' ''[STUB] Analysis pipeline not yet connected.''
        (Some [(''question'', PyStr (question payload))]) None,
      [])"

definition health_check :: "Settings \<Rightarrow> HealthResponse" where
  "health_check settings = \<lparr>status = ''ok'', app = app_name settings\<rparr>"

text \<open>The JSON content of a response: a model, or an object \<open>{"error": ..., "detail": ...}\<close>.\<close>

datatype detail = Violations "error_detail list" | Message string

datatype content = Analysis AnalyzeResponse | Health HealthResponse | Error string detail

record http_response =
  status_code :: nat
  content :: content

definition validation_exception_handler :: "error_detail list \<Rightarrow> http_response" where
  "validation_exception_handler errors =
     \<lparr>status_code = 422, content = Error ''validation_error'' (Violations errors)\<rparr>"

text \<open>The handler for any other exception reads neither the request nor the exception.\<close>

definition global_exception_handler :: http_response where
  "global_exception_handler =
     \<lparr>status_code = 500,
      content = Error ''internal_server_error'' (Message ''An unexpected error occurred.'')\<rparr>"

text \<open>
  The two routes the application registers. \<open>GET_health r\<close> is a \<open>GET /health\<close> whose
  remaining content (query string, headers) is \<open>r\<close>; \<open>POST_analyze body\<close> is a
  \<open>POST /api/v1/analyze\<close> with a JSON object body. A model returned by a handler is sent
  with status 200; an exception goes to the handler registered for it.
\<close>

datatype request = GET_health string | POST_analyze "string \<rightharpoonup> py_value"

definition serve :: "Settings \<Rightarrow> request \<Rightarrow> http_response traced" where
  "serve settings req =
     (case req of
        GET_health r \<Rightarrow> (\<lparr>status_code = 200, content = Health (health_check settings)\<rparr>, [])
      | POST_analyze body \<Rightarrow>
          (case validate_AnalyzeRequest body of
             Inl errors \<Rightarrow> (validation_exception_handler errors, [])
           | Inr payload \<Rightarrow>
               (case analyze payload of
                  (None, calls) \<Rightarrow> (global_exception_handler, calls)
                | (Some response, calls) \<Rightarrow>
                    (\<lparr>status_code = 200, content = Analysis response\<rparr>, calls))))"


section \<open>A notion of the specification that the source does not compute\<close>

text \<open>
  The specification speaks of a whitespace-trivial question: one that consists of
  whitespace only (\<open>s.strip() == ""\<close>), the empty string included. Below 256 the
  whitespace code points of a \<open>str\<close> are 9..13, 28..32, 133 and 160. No source file
  tests for it; the definition serves to state the claim about such questions.
\<close>

definition is_space :: "char \<Rightarrow> bool" where
  "is_space c =
     (let n = (of_char c :: nat) in (9 \<le> n \<and> n \<le> 13) \<or> (28 \<le> n \<and> n \<le> 32) \<or> n = 133 \<or> n = 160)"

definition whitespace_trivial :: "string \<Rightarrow> bool" where
  "whitespace_trivial s = list_all is_space s"


section \<open>Strings: what the substring test computes\<close>

lemma startswith_iff: "startswith q x \<longleftrightarrow> (\<exists>s. q = x @ s)"
  by (induction q x rule: startswith.induct) auto

lemma str_contains_iff: "str_contains x q \<longleftrightarrow> (\<exists>p s. q = p @ x @ s)"
proof (induction q)
  case Nil
  then show ?case by auto
next
  case (Cons c q)
  show ?case
  proof
    assume "str_contains x (c # q)"
    then consider "startswith (c # q) x" | "str_contains x q" by auto
    then show "\<exists>p s. c # q = p @ x @ s"
    proof cases
      case 1
      then obtain s where "c # q = x @ s" by (auto simp: startswith_iff)
      then have "c # q = [] @ x @ s" by simp
      then show ?thesis by blast
    next
      case 2
      with Cons obtain p s where "q = p @ x @ s" by auto
      then have "c # q = (c # p) @ x @ s" by simp
      then show ?thesis by blast
    qed
  next
    assume "\<exists>p s. c # q = p @ x @ s"
    then obtain p s where eq: "c # q = p @ x @ s" by blast
    show "str_contains x (c # q)"
    proof (cases p)
      case Nil
      with eq have "startswith (c # q) x" by (auto simp: startswith_iff)
      then show ?thesis by simp
    next
      case (Cons d p')
      with eq have "q = p' @ x @ s" by simp
      with Cons.IH have "str_contains x q" by blast
      then show ?thesis by simp
    qed
  qed
qed


section \<open>The classifier: helper facts\<close>

lemma categorize_body_str:
  "categorize_body (PyStr s) =
     Inr (if matches stock_keywords (lower s) then ''stock''
          else if matches news_keywords (lower s) then ''news''
          else if matches portfolio_keywords (lower s) then ''portfolio''
          else ''general'')"
  by (simp add: categorize_body_def py_lower_def)

lemma categorize_query_str:
  "categorize_query (PyStr s) lg =
     (if matches stock_keywords (lower s) then ''stock''
      else if matches news_keywords (lower s) then ''news''
      else if matches portfolio_keywords (lower s) then ''portfolio''
      else ''general'', lg)"
  by (simp add: categorize_query_def categorize_body_str)

lemma categorize_body_cases:
  "categorize_body query \<in> {Inr ''stock'', Inr ''news'', Inr ''portfolio'', Inr ''general''}
     \<or> (\<exists>ty. categorize_body query = Inl (AttributeError ty))"
  by (cases query) (simp_all add: categorize_body_def py_lower_def)

lemma categorize_query_fault:
  "categorize_body query = Inl e \<Longrightarrow>
     categorize_query query lg =
       (''general'', lg @ [ERROR (''Categorization failed: '' @ exc_str e)])"
  by (simp add: categorize_query_def)

lemma matches_iff: "matches kws q \<longleftrightarrow> (\<exists>k\<in>set kws. \<exists>p t. q = p @ k @ t)"
  by (simp add: matches_def list_ex_iff str_contains_iff)

lemma matches_member: "k \<in> set kws \<Longrightarrow> str_contains k q \<Longrightarrow> matches kws q"
  by (auto simp add: matches_def list_ex_iff)

lemma matching_categories_eq:
  "matching_categories q =
     (if matches stock_keywords q then [''stock''] else [])
     @ (if matches news_keywords q then [''news''] else [])
     @ (if matches portfolio_keywords q then [''portfolio''] else [])"
  by (simp add: matching_categories_def priority_order_def)

lemma categorize_query_hd:
  "matching_categories (lower s) \<noteq> [] \<Longrightarrow>
     fst (categorize_query (PyStr s) lg) = hd (matching_categories (lower s))"
  by (auto simp add: categorize_query_str matching_categories_eq split: if_splits)

lemma categorize_query_general_iff:
  "fst (categorize_query (PyStr s) lg) = ''general'' \<longleftrightarrow> matching_categories (lower s) = []"
  by (simp add: categorize_query_str matching_categories_eq)


section \<open>The request path: helper facts\<close>

lemma validate_missing:
  "body ''question'' = None \<Longrightarrow>
     validate_AnalyzeRequest body = Inl [\<lparr>err_type = ''missing'', loc = [''body'', ''question'']\<rparr>]"
  by (simp add: validate_AnalyzeRequest_def)

lemma validate_str:
  "body ''question'' = Some (PyStr s) \<Longrightarrow>
     validate_AnalyzeRequest body =
       (if length s < 3
        then Inl [\<lparr>err_type = ''string_too_short'', loc = [''body'', ''question'']\<rparr>]
        else if 1000 < length s
        then Inl [\<lparr>err_type = ''string_too_long'', loc = [''body'', ''question'']\<rparr>]
        else Inr \<lparr>question = s\<rparr>)"
  by (simp add: validate_AnalyzeRequest_def)

lemma validate_accepted:
  assumes "validate_AnalyzeRequest body = Inr payload"
  shows "body ''question'' = Some (PyStr (question payload))
         \<and> 3 \<le> length (question payload) \<and> length (question payload) \<le> 1000"
  using assms
  by (auto simp add: validate_AnalyzeRequest_def split: option.splits py_value.splits if_splits)

lemma analyze_eq:
  "analyze payload =
     (Some \<lparr>category = ''general'', summary = ''[STUB] Analysis pipeline not yet connected.'',
            data = Some [(''question'', PyStr (question payload))], confidence = None\<rparr>, [])"
  by (simp add: analyze_def mk_AnalyzeResponse_def)

lemma serve_rejected:
  "validate_AnalyzeRequest body = Inl errors \<Longrightarrow>
     serve settings (POST_analyze body) =
       (\<lparr>status_code = 422, content = Error ''validation_error'' (Violations errors)\<rparr>, [])"
  by (simp add: serve_def validation_exception_handler_def)

lemma serve_accepted:
  "validate_AnalyzeRequest body = Inr payload \<Longrightarrow>
     serve settings (POST_analyze body) =
       (\<lparr>status_code = 200,
         content = Analysis
           \<lparr>category = ''general'', summary = ''[STUB] Analysis pipeline not yet connected.'',
            data = Some [(''question'', PyStr (question payload))], confidence = None\<rparr>\<rparr>, [])"
  by (simp add: serve_def analyze_eq)

lemma serve_no_classifier_call: "snd (serve settings req) = []"
  by (cases req)
     (auto simp add: serve_def analyze_eq split: sum.splits)


section \<open>The classifier: category closure and error containment\<close>

text \<open>
  Claim C2. For every input, a string or not, \<open>categorize_query\<close> returns a label of
  \<open>VALID_CATEGORIES\<close> (the four labels \<open>stock\<close>, \<open>news\<close>, \<open>portfolio\<close>, \<open>general\<close>); the
  function has no exceptional result, and whenever the body of its \<open>try\<close> block raises,
  the call returns \<open>general\<close> after logging the failure.
\<close>

theorem categorize_query_closure:
  "fst (categorize_query query lg) \<in> VALID_CATEGORIES
   \<and> (\<forall>e. categorize_body query = Inl e \<longrightarrow>
         categorize_query query lg =
           (''general'', lg @ [ERROR (''Categorization failed: '' @ exc_str e)]))"
  using categorize_body_cases [of query]
  by (auto simp add: categorize_query_def VALID_CATEGORIES_def)

theorem categorize_query_closure_witness:
  "categorize_body PyNone = Inl (AttributeError ''NoneType'')
   \<and> categorize_query PyNone [] =
        (''general'', [ERROR (''Categorization failed: '' @ exc_str (AttributeError ''NoneType''))])
   \<and> fst (categorize_query (PyStr ''Show my portfolio'') []) = ''portfolio''
   \<and> fst (categorize_query (PyStr ''Show my portfolio'') []) \<in> VALID_CATEGORIES"
proof -
  have h: "categorize_body PyNone = Inl (AttributeError ''NoneType'')"
    by (simp add: categorize_body_def py_lower_def)
  have p: "fst (categorize_query (PyStr ''Show my portfolio'') []) = ''portfolio''"
    by code_simp
  from categorize_query_closure [of PyNone "[]"] h
  have "categorize_query PyNone [] =
        (''general'', [ERROR (''Categorization failed: '' @ exc_str (AttributeError ''NoneType''))])"
    by simp
  with h p categorize_query_closure [of "PyStr ''Show my portfolio''" "[]"]
  show ?thesis by simp
qed


section \<open>The classifier: priority between categories\<close>

text \<open>
  Claim C3. For every input string whose lowercase form contains keywords of more than
  one category, \<open>categorize_query\<close> returns the earliest of the matching categories in the
  order \<open>stock\<close>, \<open>news\<close>, \<open>portfolio\<close> (\<open>general\<close>, the last, has no keywords); in
  particular a query that contains both \<open>price\<close> and \<open>news\<close>, in any letter case, is
  classified \<open>stock\<close>.
\<close>

theorem categorize_query_priority:
  "(1 < length (matching_categories (lower s)) \<longrightarrow>
      fst (categorize_query (PyStr s) lg) = hd (matching_categories (lower s)))
   \<and> (str_contains ''price'' (lower s) \<and> str_contains ''news'' (lower s) \<longrightarrow>
        fst (categorize_query (PyStr s) lg) = ''stock'')"
proof (intro conjI impI)
  assume "1 < length (matching_categories (lower s))"
  then have "matching_categories (lower s) \<noteq> []" by auto
  then show "fst (categorize_query (PyStr s) lg) = hd (matching_categories (lower s))"
    by (rule categorize_query_hd)
next
  assume "str_contains ''price'' (lower s) \<and> str_contains ''news'' (lower s)"
  then have "matches stock_keywords (lower s)"
    by (intro matches_member [of "''price''"]) (simp_all add: stock_keywords_def)
  then show "fst (categorize_query (PyStr s) lg) = ''stock''"
    by (simp add: categorize_query_str)
qed

theorem categorize_query_priority_witness:
  "matching_categories (lower ''Any NEWS on the price?'') = [''stock'', ''news'']
   \<and> str_contains ''price'' (lower ''Any NEWS on the price?'')
   \<and> str_contains ''news'' (lower ''Any NEWS on the price?'')
   \<and> fst (categorize_query (PyStr ''Any NEWS on the price?'') []) = ''stock''
   \<and> matching_categories (lower ''Latest update on my account'') = [''news'', ''portfolio'']
   \<and> fst (categorize_query (PyStr ''Latest update on my account'') []) = ''news''
   \<and> matching_categories (lower ''Report the volume I bought'') = [''stock'', ''news'', ''portfolio'']
   \<and> fst (categorize_query (PyStr ''Report the volume I bought'') []) = ''stock''"
proof -
  have a: "matching_categories (lower ''Any NEWS on the price?'') = [''stock'', ''news'']"
    by code_simp
  have a1: "str_contains ''price'' (lower ''Any NEWS on the price?'')" by code_simp
  have a2: "str_contains ''news'' (lower ''Any NEWS on the price?'')" by code_simp
  have b: "matching_categories (lower ''Latest update on my account'') = [''news'', ''portfolio'']"
    by code_simp
  have c: "matching_categories (lower ''Report the volume I bought'') = [''stock'', ''news'', ''portfolio'']"
    by code_simp
  from a1 a2 categorize_query_priority [of "''Any NEWS on the price?''" "[]"]
  have ra: "fst (categorize_query (PyStr ''Any NEWS on the price?'') []) = ''stock''"
    by blast
  from b categorize_query_priority [of "''Latest update on my account''" "[]"]
  have rb: "fst (categorize_query (PyStr ''Latest update on my account'') []) = ''news''"
    by simp
  from c categorize_query_priority [of "''Report the volume I bought''" "[]"]
  have rc: "fst (categorize_query (PyStr ''Report the volume I bought'') []) = ''stock''"
    by simp
  from a a1 a2 ra b rb c rc show ?thesis by blast
qed


section \<open>The classifier: the fallback\<close>

text \<open>
  Claim C4. For every input string in whose lowercase form no keyword of any of the three
  lists occurs, and for every input on which the body of the \<open>try\<close> block raises,
  \<open>categorize_query\<close> returns \<open>general\<close>; the empty string is such an input.
\<close>

theorem categorize_query_fallback:
  "((\<forall>k\<in>set (stock_keywords @ news_keywords @ portfolio_keywords). \<not> str_contains k (lower s)) \<longrightarrow>
      fst (categorize_query (PyStr s) lg) = ''general'')
   \<and> (categorize_body query = Inl e \<longrightarrow> fst (categorize_query query lg) = ''general'')
   \<and> fst (categorize_query (PyStr '''') lg) = ''general''"
proof (intro conjI impI)
  assume no: "\<forall>k\<in>set (stock_keywords @ news_keywords @ portfolio_keywords). \<not> str_contains k (lower s)"
  then have "\<not> matches stock_keywords (lower s)" "\<not> matches news_keywords (lower s)"
    "\<not> matches portfolio_keywords (lower s)"
    by (auto simp add: matches_def list_ex_iff)
  then show "fst (categorize_query (PyStr s) lg) = ''general''"
    by (simp add: categorize_query_str)
next
  assume "categorize_body query = Inl e"
  then show "fst (categorize_query query lg) = ''general''"
    by (simp add: categorize_query_fault)
next
  have "\<not> matches stock_keywords []" "\<not> matches news_keywords []" "\<not> matches portfolio_keywords []"
    by (simp_all add: matches_def stock_keywords_def news_keywords_def portfolio_keywords_def)
  then show "fst (categorize_query (PyStr '''') lg) = ''general''"
    by (simp add: categorize_query_str lower_def)
qed

theorem categorize_query_fallback_witness:
  "list_all (\<lambda>k. \<not> str_contains k (lower ''Who are you?''))
      (stock_keywords @ news_keywords @ portfolio_keywords)
   \<and> fst (categorize_query (PyStr ''Who are you?'') []) = ''general''
   \<and> categorize_body (PyInt 7) = Inl (AttributeError ''int'')
   \<and> fst (categorize_query (PyInt 7) []) = ''general''
   \<and> fst (categorize_query (PyStr '''') []) = ''general''"
proof -
  have h: "list_all (\<lambda>k. \<not> str_contains k (lower ''Who are you?''))
      (stock_keywords @ news_keywords @ portfolio_keywords)"
    by code_simp
  then have h': "\<forall>k\<in>set (stock_keywords @ news_keywords @ portfolio_keywords).
      \<not> str_contains k (lower ''Who are you?'')"
    by (simp only: list_all_iff)
  have f: "categorize_body (PyInt 7) = Inl (AttributeError ''int'')"
    by (simp add: categorize_body_def py_lower_def)
  note t = categorize_query_fallback [of "''Who are you?''" "[]" "PyInt 7" "AttributeError ''int''"]
  from t h' have "fst (categorize_query (PyStr ''Who are you?'') []) = ''general''" by blast
  moreover from t f have "fst (categorize_query (PyInt 7) []) = ''general''" by blast
  moreover from t have "fst (categorize_query (PyStr '''') []) = ''general''" by blast
  ultimately show ?thesis using h f by blast
qed


section \<open>The classifier: matching is substring containment\<close>

text \<open>
  Claim C8. A keyword list matches a lowercased query exactly when one of its keywords
  occurs in it as a contiguous substring, word boundaries playing no part; so every query
  whose lowercase form contains \<open>low\<close> or \<open>high\<close> anywhere is classified \<open>stock\<close>, as
  \<open>Can you follow up?\<close> and \<open>highlight this\<close> are.
\<close>

theorem substring_low_high_is_stock:
  "(matches kws q \<longleftrightarrow> (\<exists>k\<in>set kws. \<exists>p t. q = p @ k @ t))
   \<and> ((\<exists>p t. lower s = p @ ''low'' @ t) \<or> (\<exists>p t. lower s = p @ ''high'' @ t) \<longrightarrow>
        fst (categorize_query (PyStr s) lg) = ''stock'')"
proof (intro conjI impI)
  show "matches kws q \<longleftrightarrow> (\<exists>k\<in>set kws. \<exists>p t. q = p @ k @ t)"
    by (rule matches_iff)
next
  assume "(\<exists>p t. lower s = p @ ''low'' @ t) \<or> (\<exists>p t. lower s = p @ ''high'' @ t)"
  then have "str_contains ''low'' (lower s) \<or> str_contains ''high'' (lower s)"
    by (simp only: str_contains_iff)
  then have "matches stock_keywords (lower s)"
    by (auto intro: matches_member simp add: stock_keywords_def)
  then show "fst (categorize_query (PyStr s) lg) = ''stock''"
    by (simp add: categorize_query_str)
qed

theorem substring_low_high_is_stock_witness:
  "lower ''Can you follow up?'' = ''can you fol'' @ ''low'' @ '' up?''
   \<and> fst (categorize_query (PyStr ''Can you follow up?'') []) = ''stock''
   \<and> lower ''highlight this'' = [] @ ''high'' @ ''light this''
   \<and> fst (categorize_query (PyStr ''highlight this'') []) = ''stock''"
proof -
  have a: "lower ''Can you follow up?'' = ''can you fol'' @ ''low'' @ '' up?''" by code_simp
  have b: "lower ''highlight this'' = [] @ ''high'' @ ''light this''" by code_simp
  from a have a': "\<exists>p t. lower ''Can you follow up?'' = p @ ''low'' @ t" by blast
  from b have b': "\<exists>p t. lower ''highlight this'' = p @ ''high'' @ t" by blast
  from a' substring_low_high_is_stock [of _ _ "''Can you follow up?''" "[]"]
  have ra: "fst (categorize_query (PyStr ''Can you follow up?'') []) = ''stock''" by blast
  from b' substring_low_high_is_stock [of _ _ "''highlight this''" "[]"]
  have rb: "fst (categorize_query (PyStr ''highlight this'') []) = ''stock''" by blast
  from a b ra rb show ?thesis by blast
qed


section \<open>The classifier: determinism\<close>

text \<open>
  Claim C9. The label \<open>categorize_query\<close> returns depends on its argument only: it is the
  same for any two states of the log, and a second call on the same input, made in the
  state the first call left, returns the label of the first.
\<close>

theorem categorize_query_deterministic:
  "fst (categorize_query query lg1) = fst (categorize_query query lg2)
   \<and> fst (categorize_query query (snd (categorize_query query lg))) = fst (categorize_query query lg)"
  by (cases "categorize_body query") (simp_all add: categorize_query_def)

theorem categorize_query_deterministic_witness:
  "snd (categorize_query PyNone []) \<noteq> []
   \<and> fst (categorize_query PyNone (snd (categorize_query PyNone []))) = fst (categorize_query PyNone [])
   \<and> fst (categorize_query (PyStr ''Google volume today'') [ERROR ''earlier''])
       = fst (categorize_query (PyStr ''Google volume today'') [])"
proof -
  have "snd (categorize_query PyNone []) \<noteq> []"
    by (simp add: categorize_query_def categorize_body_def py_lower_def)
  with categorize_query_deterministic [of PyNone _ _ "[]"]
    categorize_query_deterministic [of "PyStr ''Google volume today''" "[ERROR ''earlier'']" "[]"]
  show ?thesis by blast
qed


section \<open>The analyze endpoint: the category of the response\<close>

text \<open>
  Claim C1, as stated: for a question that passes validation the handler calls the
  classifier and answers with the classifier's label. The handler does neither. For the
  valid question \<open>What is the price of AAPL?\<close> the classifier's label is \<open>stock\<close>, while
  the response, sent with status 200, carries \<open>general\<close>, and no call of the classifier
  was made.
\<close>

theorem analyze_category_counterexample:
  "validate_AnalyzeRequest [''question'' \<mapsto> PyStr ''What is the price of AAPL?'']
     = Inr \<lparr>question = ''What is the price of AAPL?''\<rparr>
   \<and> fst (categorize_query (PyStr ''What is the price of AAPL?'') []) = ''stock''
   \<and> serve default_settings (POST_analyze [''question'' \<mapsto> PyStr ''What is the price of AAPL?''])
       = (\<lparr>status_code = 200,
           content = Analysis
             \<lparr>category = ''general'', summary = ''[STUB] Analysis pipeline not yet connected.'',
              data = Some [(''question'', PyStr ''What is the price of AAPL?'')],
              confidence = None\<rparr>\<rparr>, [])"
proof -
  have v: "validate_AnalyzeRequest [''question'' \<mapsto> PyStr ''What is the price of AAPL?'']
     = Inr \<lparr>question = ''What is the price of AAPL?''\<rparr>"
    by (simp add: validate_AnalyzeRequest_def)
  have c: "fst (categorize_query (PyStr ''What is the price of AAPL?'') []) = ''stock''"
    by code_simp
  from v c serve_accepted [OF v, of default_settings] show ?thesis by simp
qed

text \<open>
  Claim C1, amended. For every request whose question passes validation, the handler
  answers with status 200 and the constant category \<open>general\<close>, without calling the
  classifier; the category equals the classifier's label for the question exactly when no
  keyword of any category occurs in the lowercased question.
\<close>

theorem analyze_category_general:
  assumes "validate_AnalyzeRequest body = Inr payload"
  shows "snd (serve settings (POST_analyze body)) = []
         \<and> status_code (fst (serve settings (POST_analyze body))) = 200
         \<and> (\<exists>r. content (fst (serve settings (POST_analyze body))) = Analysis r
                \<and> category r = ''general''
                \<and> (category r = fst (categorize_query (PyStr (question payload)) lg)
                      \<longleftrightarrow> matching_categories (lower (question payload)) = []))"
  using serve_accepted [OF assms, of settings]
  by (simp add: categorize_query_general_iff eq_commute [of "''general''"])

theorem analyze_category_general_witness:
  "validate_AnalyzeRequest [''question'' \<mapsto> PyStr ''Price of AAPL?'']
     = Inr \<lparr>question = ''Price of AAPL?''\<rparr>
   \<and> snd (serve default_settings (POST_analyze [''question'' \<mapsto> PyStr ''Price of AAPL?''])) = []
   \<and> status_code (fst (serve default_settings
         (POST_analyze [''question'' \<mapsto> PyStr ''Price of AAPL?'']))) = 200
   \<and> matching_categories (lower ''Price of AAPL?'') = [''stock'']"
proof -
  have v: "validate_AnalyzeRequest [''question'' \<mapsto> PyStr ''Price of AAPL?'']
     = Inr \<lparr>question = ''Price of AAPL?''\<rparr>"
    by (simp add: validate_AnalyzeRequest_def)
  have m: "matching_categories (lower ''Price of AAPL?'') = [''stock'']"
    by code_simp
  from v m analyze_category_general [OF v, of default_settings "[]"] show ?thesis by simp
qed


section \<open>The analyze endpoint: the stub envelope\<close>

text \<open>
  Claim C7. For every question accepted by validation, the response has status 200 and is
  the envelope with category \<open>general\<close>, the summary
  \<open>[STUB] Analysis pipeline not yet connected.\<close>, as data the one entry \<open>question\<close> with
  the submitted question, and no confidence, whatever the question says.
\<close>

theorem analyze_stub_envelope:
  assumes "validate_AnalyzeRequest body = Inr payload"
  shows "body ''question'' = Some (PyStr (question payload))
         \<and> fst (serve settings (POST_analyze body)) =
             \<lparr>status_code = 200,
              content = Analysis
                \<lparr>category = ''general'', summary = ''[STUB] Analysis pipeline not yet connected.'',
                 data = Some [(''question'', PyStr (question payload))], confidence = None\<rparr>\<rparr>"
  using validate_accepted [OF assms] serve_accepted [OF assms, of settings] by simp

theorem analyze_stub_envelope_witness:
  "validate_AnalyzeRequest [''question'' \<mapsto> PyStr ''Latest news on Apple'']
     = Inr \<lparr>question = ''Latest news on Apple''\<rparr>
   \<and> fst (serve default_settings (POST_analyze [''question'' \<mapsto> PyStr ''Latest news on Apple''])) =
        \<lparr>status_code = 200,
         content = Analysis
           \<lparr>category = ''general'', summary = ''[STUB] Analysis pipeline not yet connected.'',
            data = Some [(''question'', PyStr ''Latest news on Apple'')], confidence = None\<rparr>\<rparr>"
proof -
  have v: "validate_AnalyzeRequest [''question'' \<mapsto> PyStr ''Latest news on Apple'']
     = Inr \<lparr>question = ''Latest news on Apple''\<rparr>"
    by (simp add: validate_AnalyzeRequest_def)
  from v analyze_stub_envelope [OF v, of default_settings] show ?thesis by simp
qed


section \<open>The analyze endpoint: validation at the length bounds\<close>

text \<open>
  Claim C5. A request whose body has no \<open>question\<close> key, or whose question has length 2
  or length 1001, is answered with status 422 and the content
  \<open>{"error": "validation_error", "detail": [...]}\<close>, the detail holding one entry for the
  violated constraint, and the classifier is not called; a question of length 3 or of
  length 1000 passes validation and is answered with status 200.
\<close>

theorem analyze_length_boundary:
  "(body ''question'' = None \<longrightarrow>
      serve settings (POST_analyze body) =
        (\<lparr>status_code = 422,
          content = Error ''validation_error''
            (Violations [\<lparr>err_type = ''missing'', loc = [''body'', ''question'']\<rparr>])\<rparr>, []))
   \<and> (body ''question'' = Some (PyStr s) \<and> length s = 2 \<longrightarrow>
      serve settings (POST_analyze body) =
        (\<lparr>status_code = 422,
          content = Error ''validation_error''
            (Violations [\<lparr>err_type = ''string_too_short'', loc = [''body'', ''question'']\<rparr>])\<rparr>, []))
   \<and> (body ''question'' = Some (PyStr s) \<and> length s = 1001 \<longrightarrow>
      serve settings (POST_analyze body) =
        (\<lparr>status_code = 422,
          content = Error ''validation_error''
            (Violations [\<lparr>err_type = ''string_too_long'', loc = [''body'', ''question'']\<rparr>])\<rparr>, []))
   \<and> (body ''question'' = Some (PyStr s) \<and> (length s = 3 \<or> length s = 1000) \<longrightarrow>
      validate_AnalyzeRequest body = Inr \<lparr>question = s\<rparr>
      \<and> status_code (fst (serve settings (POST_analyze body))) = 200)"
proof (intro conjI impI)
  assume "body ''question'' = None"
  then show "serve settings (POST_analyze body) =
        (\<lparr>status_code = 422,
          content = Error ''validation_error''
            (Violations [\<lparr>err_type = ''missing'', loc = [''body'', ''question'']\<rparr>])\<rparr>, [])"
    by (simp add: validate_missing serve_rejected)
next
  assume "body ''question'' = Some (PyStr s) \<and> length s = 2"
  then have "validate_AnalyzeRequest body =
      Inl [\<lparr>err_type = ''string_too_short'', loc = [''body'', ''question'']\<rparr>]"
    by (simp add: validate_str)
  then show "serve settings (POST_analyze body) =
        (\<lparr>status_code = 422,
          content = Error ''validation_error''
            (Violations [\<lparr>err_type = ''string_too_short'', loc = [''body'', ''question'']\<rparr>])\<rparr>, [])"
    by (rule serve_rejected)
next
  assume "body ''question'' = Some (PyStr s) \<and> length s = 1001"
  then have "validate_AnalyzeRequest body =
      Inl [\<lparr>err_type = ''string_too_long'', loc = [''body'', ''question'']\<rparr>]"
    by (simp add: validate_str)
  then show "serve settings (POST_analyze body) =
        (\<lparr>status_code = 422,
          content = Error ''validation_error''
            (Violations [\<lparr>err_type = ''string_too_long'', loc = [''body'', ''question'']\<rparr>])\<rparr>, [])"
    by (rule serve_rejected)
next
  assume a: "body ''question'' = Some (PyStr s) \<and> (length s = 3 \<or> length s = 1000)"
  then show v: "validate_AnalyzeRequest body = Inr \<lparr>question = s\<rparr>"
    by (auto simp add: validate_str)
  show "status_code (fst (serve settings (POST_analyze body))) = 200"
    by (simp add: serve_accepted [OF v])
qed

theorem analyze_length_boundary_witness:
  "(Map.empty :: string \<rightharpoonup> py_value) ''question'' = None
   \<and> length ''hi'' = 2 \<and> length (replicate 1001 CHR ''a'') = 1001
   \<and> length ''buy'' = 3 \<and> length (replicate 1000 CHR ''a'') = 1000
   \<and> serve default_settings (POST_analyze Map.empty) =
     (\<lparr>status_code = 422,
       content = Error ''validation_error''
         (Violations [\<lparr>err_type = ''missing'', loc = [''body'', ''question'']\<rparr>])\<rparr>, [])
   \<and> serve default_settings (POST_analyze [''question'' \<mapsto> PyStr ''hi'']) =
     (\<lparr>status_code = 422,
       content = Error ''validation_error''
         (Violations [\<lparr>err_type = ''string_too_short'', loc = [''body'', ''question'']\<rparr>])\<rparr>, [])
   \<and> serve default_settings (POST_analyze [''question'' \<mapsto> PyStr (replicate 1001 CHR ''a'')]) =
     (\<lparr>status_code = 422,
       content = Error ''validation_error''
         (Violations [\<lparr>err_type = ''string_too_long'', loc = [''body'', ''question'']\<rparr>])\<rparr>, [])
   \<and> status_code (fst (serve default_settings (POST_analyze [''question'' \<mapsto> PyStr ''buy'']))) = 200
   \<and> status_code (fst (serve default_settings
        (POST_analyze [''question'' \<mapsto> PyStr (replicate 1000 CHR ''a'')]))) = 200"
proof -
  have "serve default_settings (POST_analyze Map.empty) =
     (\<lparr>status_code = 422,
       content = Error ''validation_error''
         (Violations [\<lparr>err_type = ''missing'', loc = [''body'', ''question'']\<rparr>])\<rparr>, [])"
    using analyze_length_boundary [of Map.empty default_settings] by simp
  moreover have "serve default_settings (POST_analyze [''question'' \<mapsto> PyStr ''hi'']) =
     (\<lparr>status_code = 422,
       content = Error ''validation_error''
         (Violations [\<lparr>err_type = ''string_too_short'', loc = [''body'', ''question'']\<rparr>])\<rparr>, [])"
    using analyze_length_boundary [of "[''question'' \<mapsto> PyStr ''hi'']" default_settings "''hi''"]
    by simp
  moreover have "serve default_settings (POST_analyze [''question'' \<mapsto> PyStr (replicate 1001 CHR ''a'')]) =
     (\<lparr>status_code = 422,
       content = Error ''validation_error''
         (Violations [\<lparr>err_type = ''string_too_long'', loc = [''body'', ''question'']\<rparr>])\<rparr>, [])"
    using analyze_length_boundary [of "[''question'' \<mapsto> PyStr (replicate 1001 CHR ''a'')]"
        default_settings "replicate 1001 CHR ''a''"]
    by simp
  moreover have "status_code (fst (serve default_settings (POST_analyze [''question'' \<mapsto> PyStr ''buy'']))) = 200"
    using analyze_length_boundary [of "[''question'' \<mapsto> PyStr ''buy'']" default_settings "''buy''"]
    by simp
  moreover have "status_code (fst (serve default_settings
        (POST_analyze [''question'' \<mapsto> PyStr (replicate 1000 CHR ''a'')]))) = 200"
    using analyze_length_boundary [of "[''question'' \<mapsto> PyStr (replicate 1000 CHR ''a'')]"
        default_settings "replicate 1000 CHR ''a''"]
    by simp
  ultimately show ?thesis by simp
qed


section \<open>The analyze endpoint: questions that validation rejects\<close>

text \<open>
  Claim C6, as stated: every whitespace-trivial question is rejected by validation. The
  question of three spaces is whitespace-trivial, passes validation and is answered with
  status 200.
\<close>

theorem whitespace_question_counterexample:
  "whitespace_trivial ''   ''
   \<and> validate_AnalyzeRequest [''question'' \<mapsto> PyStr ''   ''] = Inr \<lparr>question = ''   ''\<rparr>
   \<and> status_code (fst (serve default_settings (POST_analyze [''question'' \<mapsto> PyStr ''   '']))) = 200"
proof -
  have w: "whitespace_trivial ''   ''" by code_simp
  have v: "validate_AnalyzeRequest [''question'' \<mapsto> PyStr ''   ''] = Inr \<lparr>question = ''   ''\<rparr>"
    by (simp add: validate_AnalyzeRequest_def)
  from w v serve_accepted [OF v, of default_settings] show ?thesis by simp
qed

text \<open>
  Claim C6, amended. For every request whose question is empty, shorter than 3 characters
  or longer than 1000 characters, validation rejects the request with status 422; a
  whitespace-only question of 3 to 1000 characters passes validation; and no question,
  of either kind, reaches the classifier, which the request path never calls.
\<close>

theorem out_of_bounds_question_rejected:
  assumes "body ''question'' = Some (PyStr s)"
  shows "(length s < 3 \<or> 1000 < length s \<longrightarrow>
            (\<exists>errors. validate_AnalyzeRequest body = Inl errors)
            \<and> status_code (fst (serve settings (POST_analyze body))) = 422)
         \<and> (whitespace_trivial s \<and> 3 \<le> length s \<and> length s \<le> 1000 \<longrightarrow>
              validate_AnalyzeRequest body = Inr \<lparr>question = s\<rparr>)
         \<and> snd (serve settings (POST_analyze body)) = []"
proof (intro conjI impI)
  assume "length s < 3 \<or> 1000 < length s"
  with assms obtain errors where e: "validate_AnalyzeRequest body = Inl errors"
    by (auto simp add: validate_str)
  then show "\<exists>errors. validate_AnalyzeRequest body = Inl errors" by blast
  from e show "status_code (fst (serve settings (POST_analyze body))) = 422"
    by (simp add: serve_rejected)
next
  assume "whitespace_trivial s \<and> 3 \<le> length s \<and> length s \<le> 1000"
  with assms show "validate_AnalyzeRequest body = Inr \<lparr>question = s\<rparr>"
    by (simp add: validate_str)
next
  show "snd (serve settings (POST_analyze body)) = []"
    by (rule serve_no_classifier_call)
qed

theorem out_of_bounds_question_rejected_witness:
  "length '''' < 3 \<and> length '' '' < 3 \<and> 1000 < length (replicate 1001 CHR ''x'')
   \<and> length ''   '' = 3
   \<and> status_code (fst (serve default_settings (POST_analyze [''question'' \<mapsto> PyStr '''']))) = 422
   \<and> status_code (fst (serve default_settings (POST_analyze [''question'' \<mapsto> PyStr '' '']))) = 422
   \<and> status_code (fst (serve default_settings
        (POST_analyze [''question'' \<mapsto> PyStr (replicate 1001 CHR ''x'')]))) = 422
   \<and> whitespace_trivial ''   ''
   \<and> validate_AnalyzeRequest [''question'' \<mapsto> PyStr ''   ''] = Inr \<lparr>question = ''   ''\<rparr>
   \<and> snd (serve default_settings (POST_analyze [''question'' \<mapsto> PyStr ''   ''])) = []"
proof -
  have w: "whitespace_trivial ''   ''" by code_simp
  have "status_code (fst (serve default_settings (POST_analyze [''question'' \<mapsto> PyStr '''']))) = 422"
    using out_of_bounds_question_rejected [of "[''question'' \<mapsto> PyStr '''']" "''''" default_settings]
    by simp
  moreover have "status_code (fst (serve default_settings (POST_analyze [''question'' \<mapsto> PyStr '' '']))) = 422"
    using out_of_bounds_question_rejected [of "[''question'' \<mapsto> PyStr '' '']" "'' ''" default_settings]
    by simp
  moreover have "status_code (fst (serve default_settings
        (POST_analyze [''question'' \<mapsto> PyStr (replicate 1001 CHR ''x'')]))) = 422"
    using out_of_bounds_question_rejected [of "[''question'' \<mapsto> PyStr (replicate 1001 CHR ''x'')]"
        "replicate 1001 CHR ''x''" default_settings]
    by simp
  moreover have "validate_AnalyzeRequest [''question'' \<mapsto> PyStr ''   ''] = Inr \<lparr>question = ''   ''\<rparr>
      \<and> snd (serve default_settings (POST_analyze [''question'' \<mapsto> PyStr ''   ''])) = []"
    using w out_of_bounds_question_rejected [of "[''question'' \<mapsto> PyStr ''   '']" "''   ''" default_settings]
    by simp
  ultimately show ?thesis using w by simp
qed


section \<open>The health endpoint\<close>

text \<open>
  Claim C10. A \<open>GET /health\<close> request is answered with status 200 and the content
  \<open>{"status": "ok", "app": name}\<close>, where \<open>name\<close> is the configured application name,
  whatever else the request holds.
\<close>

theorem health_check_ok:
  "serve settings (GET_health r) =
     (\<lparr>status_code = 200, content = Health \<lparr>status = ''ok'', app = app_name settings\<rparr>\<rparr>, [])"
  by (simp add: serve_def health_check_def)

theorem health_check_ok_witness:
  "serve default_settings (GET_health ''verbose=1'') =
     (\<lparr>status_code = 200, content = Health \<lparr>status = ''ok'', app = ''Financial Research AI''\<rparr>\<rparr>, [])
   \<and> serve (default_settings\<lparr>app_name := ''Research Desk''\<rparr>) (GET_health '''') =
     (\<lparr>status_code = 200, content = Health \<lparr>status = ''ok'', app = ''Research Desk''\<rparr>\<rparr>, [])"
  using health_check_ok [of default_settings "''verbose=1''"]
    health_check_ok [of "default_settings\<lparr>app_name := ''Research Desk''\<rparr>" "''''"]
  by (simp add: default_settings_def)

end
